theory Spec2Isabelle
  imports Main "HOL-Library.AList"
begin

section \<open>Audio URL rewriting (callHandler, main.go lines 115-118)\<close>

text \<open>
  Go strings are byte sequences; \<^typ>\<open>string\<close> is a list of bytes as well.

  \<^verbatim>\<open>path.Ext\<close> of the Go standard library, which the handler calls:
  \<^verbatim>\<open>
  func Ext(path string) string {
      for i := len(path) - 1; i >= 0 && path[i] != '/'; i-- {
          if path[i] == '.' { return path[i:] }
      }
      return ""
  }
  \<close>
  \<open>Ext_scan\<close> is the loop: its first argument holds the bytes \<open>path[i], path[i-1], ...\<close>
  still to be visited, its second the bytes \<open>path[i+1:]\<close> already passed.
\<close>

fun Ext_scan :: "string \<Rightarrow> string \<Rightarrow> string" where
  "Ext_scan [] suf = []"
| "Ext_scan (c # cs) suf =
     (if c = CHR ''/'' then []
      else if c = CHR ''.'' then c # suf
      else Ext_scan cs (c # suf))"

definition Ext :: "string \<Rightarrow> string" where
  "Ext p = Ext_scan (rev p) []"

text \<open>
  The block of \<^verbatim>\<open>callHandler\<close> that prepares the recording's URL:
  \<^verbatim>\<open>
  if ext := path.Ext(audioURL); ext == "" || ext == ".wav" {
      audioURL = audioURL[:len(audioURL)-len(ext)] + ".mp3"
  }
  \<close>
\<close>

definition rewriteAudioURL :: "string \<Rightarrow> string" where
  "rewriteAudioURL audioURL =
     (let ext = Ext audioURL in
      if ext = [] \<or> ext = ''.wav''
      then take (length audioURL - length ext) audioURL @ ''.mp3''
      else audioURL)"

section \<open>Data model (main.go lines 52-72)\<close>

text \<open>
  \<^verbatim>\<open>Identity.Account\<close> is a \<^verbatim>\<open>*datastore.Key\<close> of which the program reads only \<^verbatim>\<open>.ID\<close>:
  \<open>None\<close> is the nil key, \<open>Some i\<close> a key whose numeric id is \<open>i\<close>. Ids are \<^verbatim>\<open>int64\<close>
  values that the program only copies and compares with 0, so they are integers here.
\<close>

record Identity =
  Account :: "int option"
  Available :: bool
  Status :: string

record Participant =
  Id_Participant :: int

record PendingVoicemail =
  From :: string
  To :: string
  AudioURL :: string
  Delivered :: bool

record Stream =
  Id_Stream :: int
  Others :: "Participant list"

section \<open>Errors and results\<close>

text \<open>What the datastore client can report to \<^verbatim>\<open>store.Get\<close> and \<^verbatim>\<open>store.Put\<close>.\<close>

datatype store_error = ErrNoSuchEntity | ErrIncompleteKey | ErrUnavailable

text \<open>
  The three ways \<^verbatim>\<open>postStream\<close> fails: the HTTP client returns an error; the platform
  answers with a status other than 200 (the error names the path, the acting account
  and the status); the body cannot be read or decoded.
\<close>

datatype post_error =
    TransportError
  | BadStatus string int nat
  | BodyError

text \<open>
  The \<^verbatim>\<open>error\<close> values of \<^verbatim>\<open>deliverVoicemail\<close> and \<^verbatim>\<open>deliverPendingVoicemail\<close>, one
  constructor per message:
  \<^item> \<open>EmptyRecipient\<close>: "empty recipient (did someone call us?)" (the specification's
    InvalidRequest);
  \<^item> \<open>StillNoAccount to\<close>: "retried delivery but %s still doesn't have an account"
    (Failed(PersistentNonDelivery));
  \<^item> \<open>StoreFailed to e\<close>: "receiver %s doesn't have an account, failed to store pending
    voicemail: %v";
  \<^item> \<open>StoredPending to id\<close>: "receiver %s doesn't have an account, stored pending
    voicemail (%d)" (QueuedPending(id));
  \<^item> \<open>PostError e\<close>: the error of \<^verbatim>\<open>postStream\<close>, returned as it is;
  \<^item> \<open>PutError e\<close>: the error of \<^verbatim>\<open>store.Put\<close> in \<^verbatim>\<open>deliverPendingVoicemail\<close>, returned
    as it is.
  A nil error (\<open>None\<close>) is the specification's Delivered.
\<close>

datatype go_error =
    EmptyRecipient
  | StillNoAccount string
  | StoreFailed string store_error
  | StoredPending string int
  | PostError post_error
  | PutError store_error

text \<open>A call returns, or panics on a nil pointer.\<close>

datatype 'a go_result = Returns 'a | Panics

section \<open>The world outside the program\<close>

text \<open>
  \<^verbatim>\<open>url.Values\<close> with the keys in the order of the source's literal.
\<close>

type_synonym Values = "(string \<times> string list) list"

text \<open>What the platform answers to a request: nothing, or a status and the decoded body.\<close>

datatype http_reply = NoReply | Reply nat "Stream option"

datatype log_line =
    FailedToGet store_error
  | FailedToDeliverPending go_error
  | DeliveredPending string

text \<open>
  Everything the program does to the outside, in order: a \<^verbatim>\<open>store.Get\<close> of an Identity by
  name, a \<^verbatim>\<open>store.Put\<close> of a PendingVoicemail (with \<open>None\<close> for an incomplete key), a
  call of \<^verbatim>\<open>postStream\<close> with its account id, stream id and fields, a line of the log.
\<close>

datatype event =
    Lookup string
  | Write "int option" PendingVoicemail
  | Post int int Values
  | Logged log_line

text \<open>
  The state the program runs in. \<open>identities\<close> is what the store answers for the
  Identity of a name; \<open>pending\<close> holds the PendingVoicemail entities by numeric id;
  \<open>put_fault\<close> and \<open>http_reply\<close> are the store's and the platform's behaviour, which
  may depend on everything that happened before; \<open>trace\<close> is what happened, oldest
  first.
\<close>

record world =
  identities :: "string \<Rightarrow> store_error + Identity"
  pending :: "(int \<times> PendingVoicemail) list"
  put_fault :: "event list \<Rightarrow> store_error option"
  http_reply :: "event list \<Rightarrow> string \<Rightarrow> int \<Rightarrow> Values \<Rightarrow> http_reply"
  trace :: "event list"

text \<open>
  The answer of \<^verbatim>\<open>store.Get(ctx, datastore.NameKey("Identity", name, nil), dst)\<close>: a key
  with an empty name is incomplete, no entity is stored under it and the client
  refuses to look it up.
\<close>

definition identity_at :: "world \<Rightarrow> string \<Rightarrow> store_error + Identity" where
  "identity_at w name = (if name = [] then Inl ErrIncompleteKey else identities w name)"

definition store_Get :: "string \<Rightarrow> world \<Rightarrow> (store_error + Identity) \<times> world" where
  "store_Get name w = (identity_at w name, w\<lparr>trace := trace w @ [Lookup name]\<rparr>)"

text \<open>
  The datastore gives an entity put under an incomplete key an id that no entity of
  the kind has; the model takes the least id above all of them.
\<close>

definition allocateID :: "(int \<times> PendingVoicemail) list \<Rightarrow> int" where
  "allocateID ps = fold max (map fst ps) 0 + 1"

text \<open>
  \<^verbatim>\<open>store.Put(ctx, key, &voicemail)\<close>: on success the entity is stored under the key
  (replacing the entity that was there) and the complete key is returned.
\<close>

definition store_Put ::
  "int option \<Rightarrow> PendingVoicemail \<Rightarrow> world \<Rightarrow> (store_error + int) \<times> world" where
  "store_Put key v w =
     (let w' = w\<lparr>trace := trace w @ [Write key v]\<rparr> in
      case put_fault w (trace w) of
        Some e \<Rightarrow> (Inl e, w')
      | None \<Rightarrow>
          (let k = (case key of None \<Rightarrow> allocateID (pending w) | Some k \<Rightarrow> k)
           in (Inr k, w'\<lparr>pending := AList.update k v (pending w)\<rparr>)))"

definition log_Printf :: "log_line \<Rightarrow> world \<Rightarrow> world" where
  "log_Printf l w = w\<lparr>trace := trace w @ [Logged l]\<rparr>"

section \<open>strconv.FormatInt(i, 10)\<close>

definition digit :: "nat \<Rightarrow> char" where
  "digit d = ''0123456789'' ! d"

fun digits :: "nat \<Rightarrow> string" where
  "digits n = (if n < 10 then [digit n] else digits (n div 10) @ [digit (n mod 10)])"

declare digits.simps [simp del]

definition FormatInt :: "int \<Rightarrow> string" where
  "FormatInt i = (if i < 0 then CHR ''-'' # digits (nat (- i)) else digits (nat i))"

section \<open>getIdentityPair (main.go lines 213-225)\<close>

text \<open>
  Each \<^verbatim>\<open>store.Get\<close> that returns an error, whichever it is, leaves a nil pointer. The
  \<^verbatim>\<open>err\<close> of the two \<^verbatim>\<open>if\<close> statements is local to them, so the function's own result
  \<^verbatim>\<open>err\<close> is never assigned: the third component is always \<open>None\<close>.
\<close>

definition getIdentityPair ::
  "string \<Rightarrow> string \<Rightarrow> world \<Rightarrow>
     (Identity option \<times> Identity option \<times> go_error option) \<times> world" where
  "getIdentityPair a b w =
     (let (ra, w1) = store_Get a w;
          aa = (case ra of Inl e \<Rightarrow> None | Inr i \<Rightarrow> Some i);
          (rb, w2) = store_Get b w1;
          bb = (case rb of Inl e \<Rightarrow> None | Inr i \<Rightarrow> Some i)
      in ((aa, bb, None), w2))"

section \<open>postStream (main.go lines 231-268)\<close>

text \<open>
  The path is \<^verbatim>\<open>streams/<id>/chunks\<close> for a positive stream id and \<^verbatim>\<open>streams\<close> otherwise;
  the request carries the acting account as \<^verbatim>\<open>on_behalf_of\<close> and the fields (\<open>fields_v\<close>)
  as its body.
  \<^verbatim>\<open>url.Parse\<close> and \<^verbatim>\<open>http.NewRequest\<close> do not fail on these paths.
\<close>

definition postStream ::
  "int \<Rightarrow> int \<Rightarrow> Values \<Rightarrow> world \<Rightarrow> (post_error + Stream) \<times> world" where
  "postStream accountId streamId fields_v w =
     (let path = (if streamId > 0 then ''streams/'' @ FormatInt streamId @ ''/chunks''
                  else ''streams'');
          w' = w\<lparr>trace := trace w @ [Post accountId streamId fields_v]\<rparr>
      in case http_reply w (trace w) path accountId fields_v of
           NoReply \<Rightarrow> (Inl TransportError, w')
         | Reply status body \<Rightarrow>
             if status \<noteq> 200 then (Inl (BadStatus path accountId status), w')
             else (case body of
                     None \<Rightarrow> (Inl BodyError, w')
                   | Some stream \<Rightarrow> (Inr stream, w')))"

section \<open>deliverVoicemail (main.go lines 136-191)\<close>

definition deliverVoicemail ::
  "string \<Rightarrow> string \<Rightarrow> string \<Rightarrow> bool \<Rightarrow> world \<Rightarrow> go_error option go_result \<times> world" where
  "deliverVoicemail from to audioURL retrying w =
     (if to = [] then (Returns (Some EmptyRecipient), w)
      else
        let from = (if from = [] then ''unknownuser'' else from);
            ((fromIdentity, toIdentity, err), w1) = getIdentityPair from to w
        in
          if toIdentity = None \<or> Available (the toIdentity) then
            (if retrying then (Returns (Some (StillNoAccount to)), w1)
             else
               let pending = \<lparr>From = from, To = to, AudioURL = audioURL, Delivered = False\<rparr>;
                   (r, w2) = store_Put None pending w1
               in case r of
                    Inl storeErr \<Rightarrow> (Returns (Some (StoreFailed to storeErr)), w2)
                  | Inr key \<Rightarrow> (Returns (Some (StoredPending to key)), w2))
          else
            case Account (the toIdentity) of
              None \<Rightarrow> (Panics, w1)
            | Some toId \<Rightarrow>
                if fromIdentity \<noteq> None \<and> \<not> Available (the fromIdentity) then
                  (case Account (the fromIdentity) of
                     None \<Rightarrow> (Panics, w1)
                   | Some fromId \<Rightarrow>
                       let (r, w2) =
                             postStream fromId 0
                               [(''participant'', [FormatInt toId]), (''audio_url'', [audioURL])] w1
                       in (Returns (case r of Inl e \<Rightarrow> Some (PostError e) | Inr s \<Rightarrow> None), w2))
                else
                  let (r, w2) =
                        postStream toId 0
                          [(''participant'', [from]), (''reason'', [''voicemail''])] w1
                  in case r of
                       Inl e \<Rightarrow> (Returns (Some (PostError e)), w2)
                     | Inr stream \<Rightarrow>
                         let fromId = (if length (Others stream) > 0
                                       then Id_Participant (Others stream ! 0) else toId);
                             (r2, w3) =
                               postStream fromId (Id_Stream stream) [(''audio_url'', [audioURL])] w2
                         in (Returns (case r2 of Inl e \<Rightarrow> Some (PostError e) | Inr s \<Rightarrow> None),
                             w3))"

section \<open>deliverPendingVoicemail (main.go lines 126-134)\<close>

definition deliverPendingVoicemail ::
  "int \<Rightarrow> PendingVoicemail \<Rightarrow> world \<Rightarrow> go_error option go_result \<times> world" where
  "deliverPendingVoicemail key voicemail w =
     (case deliverVoicemail (From voicemail) (To voicemail) (AudioURL voicemail) True w of
        (Panics, w1) \<Rightarrow> (Panics, w1)
      | (Returns (Some err), w1) \<Rightarrow> (Returns (Some err), w1)
      | (Returns None, w1) \<Rightarrow>
          let (r, w2) = store_Put (Some key) (voicemail\<lparr>Delivered := True\<rparr>) w1
          in (Returns (case r of Inl e \<Rightarrow> Some (PutError e) | Inr k \<Rightarrow> None), w2))"

section \<open>flushPendingQueue (main.go lines 193-211)\<close>

text \<open>
  What \<^verbatim>\<open>t.Next(&voicemail)\<close> returns: \<^verbatim>\<open>iterator.Done\<close>, another error, or the key and
  the fields of the next entity. The iterator of \<^verbatim>\<open>store.Run(ctx, q)\<close> is the sequence
  of these results, the \<open>i\<close>-th call returning the \<open>i\<close>-th one; the store decides it.
\<close>

datatype next_result = Done | NextError store_error | Entity int PendingVoicemail

text \<open>
  The loop. It ends at \<^verbatim>\<open>iterator.Done\<close> only: after another error it logs and calls
  \<^verbatim>\<open>t.Next\<close> again (\<^verbatim>\<open>continue\<close>). A panic of the delivery ends the function. The result
  is \<open>None\<close> when the loop never ends.
\<close>

partial_function (option) flush_loop ::
  "(nat \<Rightarrow> next_result) \<Rightarrow> nat \<Rightarrow> world \<Rightarrow> (unit go_result \<times> world) option" where
  "flush_loop t i w =
     (case t i of
        Done \<Rightarrow> Some (Returns (), w)
      | NextError err \<Rightarrow> flush_loop t (Suc i) (log_Printf (FailedToGet err) w)
      | Entity key voicemail \<Rightarrow>
          (case deliverPendingVoicemail key voicemail w of
             (Panics, w1) \<Rightarrow> Some (Panics, w1)
           | (Returns (Some err), w1) \<Rightarrow>
               flush_loop t (Suc i) (log_Printf (FailedToDeliverPending err) w1)
           | (Returns None, w1) \<Rightarrow>
               flush_loop t (Suc i) (log_Printf (DeliveredPending (To voicemail)) w1)))"

definition flushPendingQueue ::
  "(nat \<Rightarrow> next_result) \<Rightarrow> world \<Rightarrow> (unit go_result \<times> world) option" where
  "flushPendingQueue t w = flush_loop t 0 w"

text \<open>
  An iterator over finitely many results: the results of the list in order, then
  \<^verbatim>\<open>iterator.Done\<close> for ever.
\<close>

definition scan :: "next_result list \<Rightarrow> nat \<Rightarrow> next_result" where
  "scan rs i = (if i < length rs then rs ! i else Done)"

text \<open>
  The iterator of the datastore client keeps an error of the store: once \<^verbatim>\<open>t.Next\<close> has
  returned it, every later call returns it again. \<open>failing rs err\<close> is such an iterator:
  the results of the list in order, then the error for ever.
\<close>

definition failing :: "next_result list \<Rightarrow> store_error \<Rightarrow> nat \<Rightarrow> next_result" where
  "failing rs err i = (if i < length rs then rs ! i else NextError err)"

section \<open>Notions the properties are stated with\<close>

text \<open>
  The sender that \<^verbatim>\<open>deliverVoicemail\<close> works with after lines 140-142: an empty \<^verbatim>\<open>from\<close>
  is replaced by \<^verbatim>\<open>"unknownuser"\<close>.
\<close>

definition sender_name :: "string \<Rightarrow> string" where
  "sender_name from = (if from = [] then ''unknownuser'' else from)"

text \<open>
  The test of line 144 on the answer of a lookup: there is no identity (the lookup
  returned an error), or the identity has \<^verbatim>\<open>Available\<close> set.
\<close>

definition absent_or_available :: "store_error + Identity \<Rightarrow> bool" where
  "absent_or_available r = (case r of Inl e \<Rightarrow> True | Inr i \<Rightarrow> Available i)"

text \<open>What a call of \<^verbatim>\<open>postStream\<close> returns in a world.\<close>

definition post_result :: "world \<Rightarrow> int \<Rightarrow> int \<Rightarrow> Values \<Rightarrow> post_error + Stream" where
  "post_result w accountId streamId fields_v = fst (postStream accountId streamId fields_v w)"

text \<open>
  The store with every lookup error replaced by "no such entity".
\<close>

definition not_found_for_errors :: "world \<Rightarrow> world" where
  "not_found_for_errors w =
     w\<lparr>identities := (\<lambda>name. case identities w name of
                                  Inl e \<Rightarrow> Inl ErrNoSuchEntity
                                | Inr i \<Rightarrow> Inr i)\<rparr>"

text \<open>
  The loop of \<^verbatim>\<open>flushPendingQueue\<close> over a list of results, by recursion on the list: the
  function that \<open>flush_loop\<close> computes on the iterator \<open>scan rs\<close> (lemma
  \<open>flush_loop_scan\<close>).
\<close>

fun flush_results :: "next_result list \<Rightarrow> world \<Rightarrow> unit go_result \<times> world" where
  "flush_results [] w = (Returns (), w)"
| "flush_results (Done # rs) w = (Returns (), w)"
| "flush_results (NextError err # rs) w = flush_results rs (log_Printf (FailedToGet err) w)"
| "flush_results (Entity key voicemail # rs) w =
     (case deliverPendingVoicemail key voicemail w of
        (Panics, w1) \<Rightarrow> (Panics, w1)
      | (Returns (Some err), w1) \<Rightarrow>
          flush_results rs (log_Printf (FailedToDeliverPending err) w1)
      | (Returns None, w1) \<Rightarrow>
          flush_results rs (log_Printf (DeliveredPending (To voicemail)) w1))"

section \<open>Example worlds\<close>

text \<open>Nobody has an account, the store works, the platform does not answer.\<close>

definition nobody :: world where
  "nobody =
     \<lparr>identities = (\<lambda>name. Inl ErrNoSuchEntity), pending = [],
      put_fault = (\<lambda>tr. None), http_reply = (\<lambda>tr path account f. NoReply), trace = []\<rparr>"

text \<open>Nobody has an account and every write to the store fails.\<close>

definition nobody_no_writes :: world where
  "nobody_no_writes = nobody\<lparr>put_fault := (\<lambda>tr. Some ErrUnavailable)\<rparr>"

text \<open>Every lookup fails because the store cannot be reached; writes succeed.\<close>

definition lookups_fail :: world where
  "lookups_fail = nobody\<lparr>identities := (\<lambda>name. Inl ErrUnavailable)\<rparr>"

definition caller :: Identity where
  "caller = \<lparr>Account = Some 11, Available = False, Status = []\<rparr>"

definition callee :: Identity where
  "callee = \<lparr>Account = Some 22, Available = False, Status = []\<rparr>"

definition answer :: Stream where
  "answer = \<lparr>Id_Stream = 5, Others = [\<lparr>Id_Participant = 33\<rparr>]\<rparr>"

definition message :: PendingVoicemail where
  "message =
     \<lparr>From = ''+15551230000'', To = ''+15559998888'',
      AudioURL = ''https://api.twilio.com/rec123.mp3'', Delivered = False\<rparr>"

text \<open>
  Caller and callee have linked accounts, the platform answers every request with
  status 200 and the stream \<open>answer\<close>, the store works and holds \<open>message\<close> under id 1.
\<close>

definition both_linked :: world where
  "both_linked =
     \<lparr>identities = (\<lambda>name. if name = ''+15551230000'' then Inr caller
                            else if name = ''+15559998888'' then Inr callee
                            else Inl ErrNoSuchEntity),
      pending = [(1, message)],
      put_fault = (\<lambda>tr. None),
      http_reply = (\<lambda>tr path account f. Reply 200 (Some answer)), trace = []\<rparr>"

text \<open>The same, with a second voicemail of the caller under id 2.\<close>

definition second_message :: PendingVoicemail where
  "second_message = message\<lparr>AudioURL := ''https://api.twilio.com/rec456.mp3''\<rparr>"

definition two_pending :: world where
  "two_pending = both_linked\<lparr>pending := [(1, message), (2, second_message)]\<rparr>"

text \<open>Only the callee has a linked account.\<close>

definition callee_linked :: world where
  "callee_linked =
     both_linked\<lparr>identities := (\<lambda>name. if name = ''+15559998888'' then Inr callee
                                         else Inl ErrNoSuchEntity)\<rparr>"

text \<open>The same, with a platform that answers with a stream that has no participants.\<close>

definition callee_alone :: world where
  "callee_alone =
     callee_linked\<lparr>http_reply :=
       (\<lambda>tr path account f. Reply 200 (Some \<lparr>Id_Stream = 5, Others = []\<rparr>))\<rparr>"

text \<open>Only the callee has a linked account, and the platform does not answer.\<close>

definition callee_linked_offline :: world where
  "callee_linked_offline = callee_linked\<lparr>http_reply := (\<lambda>tr path account f. NoReply)\<rparr>"

text \<open>The callee has a linked account; the lookup of any other name fails.\<close>

definition sender_lookup_fails :: world where
  "sender_lookup_fails =
     both_linked\<lparr>identities := (\<lambda>name. if name = ''+15559998888'' then Inr callee
                                         else Inl ErrUnavailable)\<rparr>"

text \<open>Both linked, and every write to the store fails.\<close>

definition both_linked_no_writes :: world where
  "both_linked_no_writes = both_linked\<lparr>put_fault := (\<lambda>tr. Some ErrUnavailable)\<rparr>"

section \<open>Properties of the URL rewriting\<close>

lemma Ext_scan_suffix:
  "Ext_scan cs suf = e \<Longrightarrow> e \<noteq> [] \<Longrightarrow> \<exists>pre. rev cs @ suf = pre @ e"
proof (induction cs arbitrary: suf)
  case Nil
  then show ?case by simp
next
  case (Cons c cs)
  show ?case
  proof (cases "c = CHR ''/''")
    case True
    with Cons.prems show ?thesis by simp
  next
    case slash: False
    show ?thesis
    proof (cases "c = CHR ''.''")
      case True
      with slash Cons.prems have "e = c # suf" by simp
      then show ?thesis by simp
    next
      case False
      with slash Cons.prems have "Ext_scan cs (c # suf) = e" by simp
      from Cons.IH [OF this Cons.prems(2)] show ?thesis by simp
    qed
  qed
qed

lemma Ext_suffix: "\<exists>pre. p = pre @ Ext p"
proof (cases "Ext p = []")
  case True
  then show ?thesis by simp
next
  case False
  from Ext_scan_suffix [of "rev p" "[]" "Ext p"] False show ?thesis
    by (simp add: Ext_def)
qed

lemma take_base: "p = pre @ e \<Longrightarrow> take (length p - length e) p = pre"
  by simp

text \<open>The scan over a string that ends in \<open>.mp3\<close> stops at that dot.\<close>

lemma Ext_mp3: "Ext (base @ ''.mp3'') = ''.mp3''"
  by (simp add: Ext_def)

text \<open>
  C8. With the extension of a URL being what \<^verbatim>\<open>path.Ext\<close> returns for it: a URL with no
  extension, or with the extension \<open>.wav\<close>, is the base path followed by that extension,
  and the rewriting returns the same base path followed by \<open>.mp3\<close>; a URL with any other
  extension is returned unchanged.
\<close>

theorem rewriteAudioURL_extension:
  "(Ext u = [] \<or> Ext u = ''.wav'' \<longrightarrow>
      (\<exists>base. u = base @ Ext u \<and> rewriteAudioURL u = base @ ''.mp3'')) \<and>
   (Ext u \<noteq> [] \<and> Ext u \<noteq> ''.wav'' \<longrightarrow> rewriteAudioURL u = u)"
proof -
  obtain pre where pre: "u = pre @ Ext u"
    using Ext_suffix by blast
  then have "take (length u - length (Ext u)) u = pre"
    by (rule take_base)
  then have "Ext u = [] \<or> Ext u = ''.wav'' \<Longrightarrow> rewriteAudioURL u = pre @ ''.mp3''"
    by (simp add: rewriteAudioURL_def Let_def)
  moreover have "Ext u \<noteq> [] \<and> Ext u \<noteq> ''.wav'' \<Longrightarrow> rewriteAudioURL u = u"
    by (simp add: rewriteAudioURL_def Let_def)
  ultimately show ?thesis
    using pre by blast
qed

theorem rewriteAudioURL_extension_witness:
  "Ext ''https://api.twilio.com/Recordings/rec123'' = [] \<and>
   rewriteAudioURL ''https://api.twilio.com/Recordings/rec123'' =
     ''https://api.twilio.com/Recordings/rec123.mp3'' \<and>
   Ext ''https://api.twilio.com/Recordings/rec123.wav'' = ''.wav'' \<and>
   rewriteAudioURL ''https://api.twilio.com/Recordings/rec123.wav'' =
     ''https://api.twilio.com/Recordings/rec123.mp3'' \<and>
   Ext ''https://api.twilio.com/Recordings/rec123.ogg'' = ''.ogg'' \<and>
   rewriteAudioURL ''https://api.twilio.com/Recordings/rec123.ogg'' =
     ''https://api.twilio.com/Recordings/rec123.ogg''"
  using rewriteAudioURL_extension [of "''https://api.twilio.com/Recordings/rec123''"]
    rewriteAudioURL_extension [of "''https://api.twilio.com/Recordings/rec123.wav''"]
    rewriteAudioURL_extension [of "''https://api.twilio.com/Recordings/rec123.ogg''"]
  by (simp add: Ext_def)

text \<open>
  C10, as the program has it. The claim as stated gives as its reason that the output
  always ends in \<open>.mp3\<close>; that fails for a URL with an extension other than \<open>.wav\<close>,
  which is returned as it is (see the counterexample after the theorem).

  Amended: the rewriting is idempotent on every URL. The extension of its result is
  never empty and never \<open>.wav\<close>: it is \<open>.mp3\<close> when the URL's extension was empty or
  \<open>.wav\<close>, and otherwise the result is the URL itself, whose extension is another one.
  So a second application changes nothing.
\<close>

theorem rewriteAudioURL_idempotent:
  "rewriteAudioURL (rewriteAudioURL u) = rewriteAudioURL u \<and>
   Ext (rewriteAudioURL u) \<noteq> [] \<and> Ext (rewriteAudioURL u) \<noteq> ''.wav'' \<and>
   (Ext u = [] \<or> Ext u = ''.wav'' \<longrightarrow> Ext (rewriteAudioURL u) = ''.mp3'') \<and>
   (Ext u \<noteq> [] \<and> Ext u \<noteq> ''.wav'' \<longrightarrow> rewriteAudioURL u = u)"
proof -
  have rewritten: "Ext (rewriteAudioURL u) = ''.mp3''" if "Ext u = [] \<or> Ext u = ''.wav''"
  proof -
    from that have "rewriteAudioURL u = take (length u - length (Ext u)) u @ ''.mp3''"
      by (simp add: rewriteAudioURL_def Let_def)
    then show ?thesis
      by (simp only: Ext_mp3)
  qed
  have kept: "rewriteAudioURL u = u" if "Ext u \<noteq> [] \<and> Ext u \<noteq> ''.wav''"
    using that by (simp add: rewriteAudioURL_def Let_def)
  have ext: "Ext (rewriteAudioURL u) \<noteq> [] \<and> Ext (rewriteAudioURL u) \<noteq> ''.wav''"
  proof (cases "Ext u = [] \<or> Ext u = ''.wav''")
    case True
    from rewritten [OF True] show ?thesis by simp
  next
    case False
    then show ?thesis using kept by simp
  qed
  then have "rewriteAudioURL (rewriteAudioURL u) = rewriteAudioURL u"
    by (simp add: rewriteAudioURL_def [of "rewriteAudioURL u"] Let_def)
  with ext rewritten kept show ?thesis by blast
qed

theorem rewriteAudioURL_idempotent_witness:
  "Ext ''https://api.twilio.com/Recordings/rec123.wav'' = ''.wav'' \<and>
   Ext (rewriteAudioURL ''https://api.twilio.com/Recordings/rec123.wav'') = ''.mp3'' \<and>
   rewriteAudioURL (rewriteAudioURL ''https://api.twilio.com/Recordings/rec123.wav'') =
     ''https://api.twilio.com/Recordings/rec123.mp3'' \<and>
   Ext ''https://api.twilio.com/Recordings/rec123.ogg'' = ''.ogg'' \<and>
   rewriteAudioURL (rewriteAudioURL ''https://api.twilio.com/Recordings/rec123.ogg'') =
     ''https://api.twilio.com/Recordings/rec123.ogg''"
proof -
  have w: "Ext ''https://api.twilio.com/Recordings/rec123.wav'' = ''.wav''"
    and o: "Ext ''https://api.twilio.com/Recordings/rec123.ogg'' = ''.ogg''"
    by (simp_all add: Ext_def)
  have r: "rewriteAudioURL ''https://api.twilio.com/Recordings/rec123.wav'' =
      ''https://api.twilio.com/Recordings/rec123.mp3''"
    by (simp add: rewriteAudioURL_def w)
  from rewriteAudioURL_idempotent [of "''https://api.twilio.com/Recordings/rec123.wav''"] w
  have first: "Ext (rewriteAudioURL ''https://api.twilio.com/Recordings/rec123.wav'') = ''.mp3'' \<and>
      rewriteAudioURL (rewriteAudioURL ''https://api.twilio.com/Recordings/rec123.wav'') =
        rewriteAudioURL ''https://api.twilio.com/Recordings/rec123.wav''"
    by simp
  from rewriteAudioURL_idempotent [of "''https://api.twilio.com/Recordings/rec123.ogg''"] o
  have second: "rewriteAudioURL (rewriteAudioURL ''https://api.twilio.com/Recordings/rec123.ogg'') =
      ''https://api.twilio.com/Recordings/rec123.ogg''"
    by simp
  from w o first second show ?thesis
    by (simp add: r)
qed

theorem rewriteAudioURL_counterexample:
  "Ext ''https://api.twilio.com/Recordings/rec123.ogg'' = ''.ogg'' \<and>
   rewriteAudioURL ''https://api.twilio.com/Recordings/rec123.ogg'' =
     ''https://api.twilio.com/Recordings/rec123.ogg'' \<and>
   last (rewriteAudioURL ''https://api.twilio.com/Recordings/rec123.ogg'') = CHR ''g''"
proof -
  have "Ext ''https://api.twilio.com/Recordings/rec123.ogg'' = ''.ogg''"
    by (simp add: Ext_def)
  then show ?thesis
    by (simp add: rewriteAudioURL_def)
qed


section \<open>The steps of deliverVoicemail\<close>

lemma identity_at_trace [simp]: "identity_at (w\<lparr>trace := tr\<rparr>) name = identity_at w name"
  by (simp add: identity_at_def)

lemma identity_at_nonempty: "identity_at w name = Inr i \<Longrightarrow> name \<noteq> []"
  by (auto simp: identity_at_def split: if_splits)

lemma sender_name_nonempty [simp]: "sender_name from \<noteq> []"
  by (simp add: sender_name_def)

lemma getIdentityPair_eq:
  "getIdentityPair a b w =
     ((case identity_at w a of Inl e \<Rightarrow> None | Inr i \<Rightarrow> Some i,
       case identity_at w b of Inl e \<Rightarrow> None | Inr i \<Rightarrow> Some i, None),
      w\<lparr>trace := trace w @ [Lookup a, Lookup b]\<rparr>)"
  by (simp add: getIdentityPair_def store_Get_def)

lemma postStream_eq:
  "postStream accountId streamId fields_v w =
     (post_result w accountId streamId fields_v,
      w\<lparr>trace := trace w @ [Post accountId streamId fields_v]\<rparr>)"
  by (simp add: post_result_def postStream_def Let_def split: http_reply.split option.split)

text \<open>The id given to a new entity is above the ids in use.\<close>

lemma fold_max_ge: "(a::int) \<le> fold max xs a"
proof (induction xs arbitrary: a)
  case Nil
  show ?case by simp
next
  case (Cons x xs)
  have "a \<le> max x a" by simp
  also have "\<dots> \<le> fold max xs (max x a)" by (rule Cons.IH)
  finally show ?case by simp
qed

lemma fold_max_member: "(x::int) \<in> set xs \<Longrightarrow> x \<le> fold max xs a"
proof (induction xs arbitrary: a)
  case Nil
  then show ?case by simp
next
  case (Cons y ys)
  show ?case
  proof (cases "x = y")
    case True
    have "x \<le> max y a" using True by simp
    also have "\<dots> \<le> fold max ys (max y a)" by (rule fold_max_ge)
    finally show ?thesis by simp
  next
    case False
    with Cons.prems have "x \<in> set ys" by simp
    then show ?thesis using Cons.IH by simp
  qed
qed

lemma allocateID_fresh: "allocateID ps \<notin> fst ` set ps"
proof
  assume "allocateID ps \<in> fst ` set ps"
  then have "allocateID ps \<in> set (map fst ps)" by simp
  then have "allocateID ps \<le> fold max (map fst ps) 0" by (rule fold_max_member)
  then show False by (simp add: allocateID_def)
qed

lemma update_fresh: "k \<notin> fst ` set al \<Longrightarrow> AList.update k v al = al @ [(k, v)]"
  by (induction al) auto

lemma store_Put_ok:
  assumes "put_fault w (trace w) = None"
  shows "store_Put None v w =
     (Inr (allocateID (pending w)),
      w\<lparr>trace := trace w @ [Write None v],
        pending := pending w @ [(allocateID (pending w), v)]\<rparr>)"
proof -
  have "AList.update (allocateID (pending w)) v (pending w) =
      pending w @ [(allocateID (pending w), v)]"
    using allocateID_fresh by (rule update_fresh)
  with assms show ?thesis
    by (simp add: store_Put_def Let_def)
qed

lemma store_Put_failed:
  "put_fault w (trace w) = Some e \<Longrightarrow>
   store_Put key v w = (Inl e, w\<lparr>trace := trace w @ [Write key v]\<rparr>)"
  by (simp add: store_Put_def Let_def)

lemma store_Put_key:
  "put_fault w (trace w) = None \<Longrightarrow>
   store_Put (Some k) v w =
     (Inr k, w\<lparr>trace := trace w @ [Write (Some k) v],
              pending := AList.update k v (pending w)\<rparr>)"
  by (simp add: store_Put_def Let_def)

text \<open>Line 137: an empty recipient.\<close>

lemma deliver_empty:
  "deliverVoicemail from [] audioURL retrying w = (Returns (Some EmptyRecipient), w)"
  by (simp add: deliverVoicemail_def)

text \<open>Lines 144-161: the recipient has no identity, or one with \<^verbatim>\<open>Available\<close> set.\<close>

lemma deliver_no_account:
  assumes "to \<noteq> []" and "absent_or_available (identity_at w to)"
  shows "deliverVoicemail from to audioURL retrying w =
     (let w1 = w\<lparr>trace := trace w @ [Lookup (sender_name from), Lookup to]\<rparr> in
      if retrying then (Returns (Some (StillNoAccount to)), w1)
      else case store_Put None
                  \<lparr>From = sender_name from, To = to, AudioURL = audioURL, Delivered = False\<rparr> w1 of
             (Inl storeErr, w2) \<Rightarrow> (Returns (Some (StoreFailed to storeErr)), w2)
           | (Inr key, w2) \<Rightarrow> (Returns (Some (StoredPending to key)), w2))"
  using assms
  by (simp add: deliverVoicemail_def getIdentityPair_eq absent_or_available_def
      sender_name_def Let_def split: sum.splits prod.splits)

text \<open>Line 162: the recipient's identity has no account key.\<close>

lemma deliver_nil_recipient_key:
  assumes "identity_at w to = Inr ti" and "\<not> Available ti" and "Account ti = None"
  shows "deliverVoicemail from to audioURL retrying w =
     (Panics, w\<lparr>trace := trace w @ [Lookup (sender_name from), Lookup to]\<rparr>)"
proof -
  from assms(1) have "to \<noteq> []" by (rule identity_at_nonempty)
  with assms show ?thesis
    by (simp add: deliverVoicemail_def getIdentityPair_eq sender_name_def Let_def)
qed

text \<open>Lines 164-171: both have an identity with \<^verbatim>\<open>Available\<close> unset.\<close>

lemma deliver_nil_sender_key:
  assumes "identity_at w to = Inr ti" and "\<not> Available ti" and "Account ti = Some toId"
    and "identity_at w (sender_name from) = Inr fi" and "\<not> Available fi"
    and "Account fi = None"
  shows "deliverVoicemail from to audioURL retrying w =
     (Panics, w\<lparr>trace := trace w @ [Lookup (sender_name from), Lookup to]\<rparr>)"
proof -
  from assms(1) have "to \<noteq> []" by (rule identity_at_nonempty)
  with assms show ?thesis
    by (simp add: deliverVoicemail_def getIdentityPair_eq sender_name_def [symmetric] Let_def)
qed

lemma deliver_direct:
  assumes "identity_at w to = Inr ti" and "\<not> Available ti" and "Account ti = Some toId"
    and "identity_at w (sender_name from) = Inr fi" and "\<not> Available fi"
    and "Account fi = Some fromId"
  shows "deliverVoicemail from to audioURL retrying w =
     (let w1 = w\<lparr>trace := trace w @ [Lookup (sender_name from), Lookup to]\<rparr>;
          fields_v = [(''participant'', [FormatInt toId]), (''audio_url'', [audioURL])]
      in (Returns (case post_result w1 fromId 0 fields_v of
                     Inl e \<Rightarrow> Some (PostError e) | Inr s \<Rightarrow> None),
          w1\<lparr>trace := trace w1 @ [Post fromId 0 fields_v]\<rparr>))"
proof -
  from assms(1) have "to \<noteq> []" by (rule identity_at_nonempty)
  with assms show ?thesis
    by (simp add: deliverVoicemail_def getIdentityPair_eq postStream_eq
        sender_name_def [symmetric] Let_def)
qed

text \<open>Lines 172-190: the sender has no identity, or one with \<^verbatim>\<open>Available\<close> set.\<close>

lemma deliver_reverse:
  assumes "identity_at w to = Inr ti" and "\<not> Available ti" and "Account ti = Some toId"
    and "absent_or_available (identity_at w (sender_name from))"
  shows "deliverVoicemail from to audioURL retrying w =
     (let w1 = w\<lparr>trace := trace w @ [Lookup (sender_name from), Lookup to]\<rparr>;
          create = [(''participant'', [sender_name from]), (''reason'', [''voicemail''])];
          w2 = w1\<lparr>trace := trace w1 @ [Post toId 0 create]\<rparr>
      in case post_result w1 toId 0 create of
           Inl e \<Rightarrow> (Returns (Some (PostError e)), w2)
         | Inr stream \<Rightarrow>
             let fromId = (case Others stream of [] \<Rightarrow> toId | p # ps \<Rightarrow> Id_Participant p);
                 append = [(''audio_url'', [audioURL])]
             in (Returns (case post_result w2 fromId (Id_Stream stream) append of
                            Inl e \<Rightarrow> Some (PostError e) | Inr s \<Rightarrow> None),
                 w2\<lparr>trace := trace w2 @ [Post fromId (Id_Stream stream) append]\<rparr>))"
proof -
  define f where "f = sender_name from"
  have f: "(if from = [] then ''unknownuser'' else from) = f"
    by (simp add: f_def sender_name_def)
  from assms(1) have to: "to \<noteq> []" by (rule identity_at_nonempty)
  define w1 where "w1 = w\<lparr>trace := trace w @ [Lookup f, Lookup to]\<rparr>"
  define create where "create = [(''participant'', [f]), (''reason'', [''voicemail''])]"
  have start: "deliverVoicemail from to audioURL retrying w =
      (let (r, w2) = postStream toId 0 create w1
       in case r of
            Inl e \<Rightarrow> (Returns (Some (PostError e)), w2)
          | Inr stream \<Rightarrow>
              let fromId = (if length (Others stream) > 0
                            then Id_Participant (Others stream ! 0) else toId);
                  (r2, w3) = postStream fromId (Id_Stream stream) [(''audio_url'', [audioURL])] w2
              in (Returns (case r2 of Inl e \<Rightarrow> Some (PostError e) | Inr s \<Rightarrow> None), w3))"
  proof (cases "identity_at w f")
    case (Inl e)
    with to assms(1,2,3) show ?thesis
      unfolding deliverVoicemail_def f getIdentityPair_eq Let_def w1_def create_def
      by simp
  next
    case (Inr fi)
    with assms(4) have "Available fi"
      by (simp add: f_def absent_or_available_def)
    with Inr to assms(1,2,3) show ?thesis
      unfolding deliverVoicemail_def f getIdentityPair_eq Let_def w1_def create_def
      by simp
  qed
  have first: "(case Others stream of [] \<Rightarrow> toId | p # ps \<Rightarrow> Id_Participant p) =
      (if length (Others stream) > 0 then Id_Participant (Others stream ! 0) else toId)"
    for stream :: Stream
    by (cases "Others stream") simp_all
  show ?thesis
    unfolding start first
    by (simp add: postStream_eq Let_def f_def w1_def create_def split: sum.split)
qed

text \<open>
  A retry writes nothing: whatever the identities and the platform do, the world after
  it differs from the world before by lookups and posts added to the trace, and the
  result is never "stored pending voicemail".
\<close>

lemma trace_same: "w = w\<lparr>trace := trace w @ []\<rparr>"
  by simp

lemma deliver_retry_frame:
  "\<exists>evs. snd (deliverVoicemail from to audioURL True w) = w\<lparr>trace := trace w @ evs\<rparr> \<and>
         (\<forall>k v. Write k v \<notin> set evs) \<and>
         (\<forall>t k. fst (deliverVoicemail from to audioURL True w) \<noteq>
                  Returns (Some (StoredPending t k)))"
proof (cases "to = []")
  case True
  have "snd (deliverVoicemail from [] audioURL True w) = w\<lparr>trace := trace w @ []\<rparr>"
    by (simp add: deliver_empty)
  then show ?thesis
    using True by (intro exI [of _ "[]"]) (simp add: deliver_empty)
next
  case nonempty: False
  show ?thesis
  proof (cases "absent_or_available (identity_at w to)")
    case True
    show ?thesis
      by (intro exI [of _ "[Lookup (sender_name from), Lookup to]"])
        (simp add: deliver_no_account [OF nonempty True])
  next
    case False
    then obtain ti where ti: "identity_at w to = Inr ti" "\<not> Available ti"
      by (auto simp: absent_or_available_def split: sum.splits)
    show ?thesis
    proof (cases "Account ti")
      case None
      show ?thesis
        by (intro exI [of _ "[Lookup (sender_name from), Lookup to]"])
          (simp add: deliver_nil_recipient_key [OF ti None])
    next
      case (Some toId)
      show ?thesis
      proof (cases "absent_or_available (identity_at w (sender_name from))")
        case True
        let ?w1 = "w\<lparr>trace := trace w @ [Lookup (sender_name from), Lookup to]\<rparr>"
        let ?create = "[(''participant'', [sender_name from]), (''reason'', [''voicemail''])]"
        show ?thesis
        proof (cases "post_result ?w1 toId 0 ?create")
          case (Inl e)
          show ?thesis
            by (intro exI [of _ "[Lookup (sender_name from), Lookup to, Post toId 0 ?create]"])
              (simp add: deliver_reverse [OF ti Some True] Let_def Inl)
        next
          case (Inr stream)
          let ?fromId = "case Others stream of [] \<Rightarrow> toId | p # ps \<Rightarrow> Id_Participant p"
          show ?thesis
            by (intro exI [of _ "[Lookup (sender_name from), Lookup to, Post toId 0 ?create,
                  Post ?fromId (Id_Stream stream) [(''audio_url'', [audioURL])]]"])
              (simp add: deliver_reverse [OF ti Some True] Let_def Inr split: sum.split)
        qed
      next
        case False
        then obtain fi where fi: "identity_at w (sender_name from) = Inr fi" "\<not> Available fi"
          by (auto simp: absent_or_available_def split: sum.splits)
        show ?thesis
        proof (cases "Account fi")
          case None
          show ?thesis
            by (intro exI [of _ "[Lookup (sender_name from), Lookup to]"])
              (simp add: deliver_nil_sender_key [OF ti Some fi None])
        next
          case (Some fromId)
          show ?thesis
            by (intro exI [of _ "[Lookup (sender_name from), Lookup to,
                  Post fromId 0 [(''participant'', [FormatInt toId]), (''audio_url'', [audioURL])]]"])
              (simp add: deliver_direct [OF ti \<open>Account ti = Some toId\<close> fi Some] Let_def
                split: sum.split)
        qed
      qed
    qed
  qed
qed

text \<open>
  Which error a lookup returns makes no difference: every step gives the same result in
  the world where the lookup errors are "no such entity".
\<close>

lemma identity_at_not_found:
  "(case identity_at (not_found_for_errors w) name of Inl e \<Rightarrow> None | Inr i \<Rightarrow> Some i) =
   (case identity_at w name of Inl e \<Rightarrow> None | Inr i \<Rightarrow> Some i)"
  by (simp add: identity_at_def not_found_for_errors_def split: sum.splits)

lemma getIdentityPair_not_found:
  "getIdentityPair a b (not_found_for_errors w) =
     (fst (getIdentityPair a b w), not_found_for_errors (snd (getIdentityPair a b w)))"
  by (simp add: getIdentityPair_eq identity_at_not_found) (simp add: not_found_for_errors_def)

lemma store_Put_not_found:
  "store_Put k v (not_found_for_errors w) =
     (fst (store_Put k v w), not_found_for_errors (snd (store_Put k v w)))"
  by (simp add: store_Put_def not_found_for_errors_def Let_def split: option.splits)

lemma postStream_not_found:
  "postStream a s f (not_found_for_errors w) =
     (fst (postStream a s f w), not_found_for_errors (snd (postStream a s f w)))"
  by (simp add: postStream_def not_found_for_errors_def Let_def
      split: option.splits http_reply.splits)

lemma deliver_not_found:
  "deliverVoicemail from to audioURL retrying (not_found_for_errors w) =
     (fst (deliverVoicemail from to audioURL retrying w),
      not_found_for_errors (snd (deliverVoicemail from to audioURL retrying w)))"
proof (cases "to = []")
  case True
  then show ?thesis by (simp add: deliverVoicemail_def)
next
  case False
  define f where "f = (if from = [] then ''unknownuser'' else from)"
  define fromIdentity where
    "fromIdentity = (case identity_at w f of Inl e \<Rightarrow> None | Inr i \<Rightarrow> Some i)"
  define toIdentity where
    "toIdentity = (case identity_at w to of Inl e \<Rightarrow> None | Inr i \<Rightarrow> Some i)"
  define w1 where "w1 = w\<lparr>trace := trace w @ [Lookup f, Lookup to]\<rparr>"
  have pair: "getIdentityPair f to w = ((fromIdentity, toIdentity, None), w1)"
    by (simp add: getIdentityPair_eq fromIdentity_def toIdentity_def w1_def)
  have pair': "getIdentityPair f to (not_found_for_errors w) =
      ((fromIdentity, toIdentity, None), not_found_for_errors w1)"
    by (simp add: getIdentityPair_not_found pair)
  show ?thesis
    unfolding deliverVoicemail_def f_def [symmetric] Let_def pair pair'
    using False
    by (simp add: split_beta store_Put_not_found postStream_not_found
        split: sum.split option.split)
qed


section \<open>Properties of deliverVoicemail\<close>

lemma FormatInt_22: "FormatInt 22 = ''22''"
  by (simp add: FormatInt_def digits.simps digit_def)

text \<open>
  C7. A call with an empty recipient returns the error "empty recipient" (the
  specification's InvalidRequest) and leaves the world as it was: nothing is added to
  the trace, so there was no lookup, no write and no post, and the store is unchanged.
  This holds for every sender, URL, retry flag and world.
\<close>

theorem empty_recipient_rejected:
  "deliverVoicemail from [] audioURL retrying w = (Returns (Some EmptyRecipient), w)"
  by (rule deliver_empty)

text \<open>
  C1, as the program has it. The claim as stated fails in three ways: when the write
  to the store fails, no record is inserted and the result is the store's failure; when
  the sender is empty, the record holds \<open>unknownuser\<close> as its sender; when the recipient
  is empty, no identity can be found for it and the call is rejected.

  Amended: for a non-empty recipient whose lookup returns no identity, or an identity
  with \<open>Available\<close> set, a first attempt whose write to the store succeeds looks up both
  names, writes one PendingVoicemail under an incomplete key and does nothing else; the
  store then holds exactly one more entity, under an id that was not in use, with the
  sender (\<open>unknownuser\<close> for an empty one), the recipient, the URL and
  \<open>Delivered = False\<close>; the result is "stored pending voicemail" with that id. No post is
  made.
\<close>

theorem voicemail_queued:
  assumes "to \<noteq> []" and "absent_or_available (identity_at w to)"
    and "put_fault w (trace w @ [Lookup (sender_name from), Lookup to]) = None"
  shows "deliverVoicemail from to audioURL False w =
      (Returns (Some (StoredPending to (allocateID (pending w)))),
       w\<lparr>trace := trace w @
            [Lookup (sender_name from), Lookup to,
             Write None \<lparr>From = sender_name from, To = to, AudioURL = audioURL,
                         Delivered = False\<rparr>],
         pending := pending w @
            [(allocateID (pending w),
              \<lparr>From = sender_name from, To = to, AudioURL = audioURL,
               Delivered = False\<rparr>)]\<rparr>) \<and>
     allocateID (pending w) \<notin> fst ` set (pending w)"
proof -
  let ?w1 = "w\<lparr>trace := trace w @ [Lookup (sender_name from), Lookup to]\<rparr>"
  from assms(3) have "put_fault ?w1 (trace ?w1) = None" by simp
  from store_Put_ok [OF this] show ?thesis
    by (simp add: deliver_no_account [OF assms(1,2)] allocateID_fresh)
qed

theorem voicemail_queued_witness:
  "deliverVoicemail ''+15551230000'' ''+15559998888'' ''https://api.twilio.com/rec123.mp3''
     False nobody =
     (Returns (Some (StoredPending ''+15559998888'' 1)),
      nobody\<lparr>trace := [Lookup ''+15551230000'', Lookup ''+15559998888'', Write None message],
             pending := [(1, message)]\<rparr>)"
proof -
  have h1: "''+15559998888'' \<noteq> []" by simp
  have h2: "absent_or_available (identity_at nobody ''+15559998888'')"
    by (simp add: absent_or_available_def identity_at_def nobody_def)
  have h3: "put_fault nobody
      (trace nobody @ [Lookup (sender_name ''+15551230000''), Lookup ''+15559998888'']) = None"
    by (simp add: nobody_def)
  have "allocateID (pending nobody) = 1" "trace nobody = []" "pending nobody = []"
    by (simp_all add: allocateID_def nobody_def)
  with voicemail_queued [OF h1 h2 h3, of "''https://api.twilio.com/rec123.mp3''"]
  show ?thesis
    by (simp add: sender_name_def message_def)
qed

theorem queued_counterexample:
  "absent_or_available (identity_at nobody_no_writes ''+15559998888'') \<and>
   deliverVoicemail ''+15551230000'' ''+15559998888'' ''https://api.twilio.com/rec123.mp3''
     False nobody_no_writes =
     (Returns (Some (StoreFailed ''+15559998888'' ErrUnavailable)),
      nobody_no_writes\<lparr>trace :=
        [Lookup ''+15551230000'', Lookup ''+15559998888'', Write None message]\<rparr>) \<and>
   pending nobody_no_writes = [] \<and>
   absent_or_available (identity_at nobody ''+15559998888'') \<and>
   deliverVoicemail [] ''+15559998888'' ''https://api.twilio.com/rec123.mp3'' False nobody =
     (Returns (Some (StoredPending ''+15559998888'' 1)),
      nobody\<lparr>trace :=
          [Lookup ''unknownuser'', Lookup ''+15559998888'',
           Write None (message\<lparr>From := ''unknownuser''\<rparr>)],
        pending := [(1, message\<lparr>From := ''unknownuser''\<rparr>)]\<rparr>) \<and>
   absent_or_available (identity_at nobody []) \<and>
   deliverVoicemail ''+15551230000'' [] ''https://api.twilio.com/rec123.mp3'' False nobody =
     (Returns (Some EmptyRecipient), nobody)"
proof -
  have a: "absent_or_available (identity_at nobody_no_writes ''+15559998888'')"
    and b: "absent_or_available (identity_at nobody ''+15559998888'')"
    and c: "absent_or_available (identity_at nobody [])"
    by (simp_all add: absent_or_available_def identity_at_def nobody_def nobody_no_writes_def)
  have n: "''+15559998888'' \<noteq> []" by simp
  have "put_fault (nobody_no_writes\<lparr>trace := tr\<rparr>) tr' = Some ErrUnavailable" for tr tr'
    by (simp add: nobody_no_writes_def)
  then have first: "deliverVoicemail ''+15551230000'' ''+15559998888''
      ''https://api.twilio.com/rec123.mp3'' False nobody_no_writes =
     (Returns (Some (StoreFailed ''+15559998888'' ErrUnavailable)),
      nobody_no_writes\<lparr>trace :=
        [Lookup ''+15551230000'', Lookup ''+15559998888'', Write None message]\<rparr>)"
    by (simp add: deliver_no_account [OF n a] store_Put_failed sender_name_def message_def)
      (simp add: nobody_no_writes_def nobody_def)
  have "put_fault (nobody\<lparr>trace := tr\<rparr>) tr' = None" for tr tr'
    by (simp add: nobody_def)
  then have second: "deliverVoicemail [] ''+15559998888''
      ''https://api.twilio.com/rec123.mp3'' False nobody =
     (Returns (Some (StoredPending ''+15559998888'' 1)),
      nobody\<lparr>trace :=
          [Lookup ''unknownuser'', Lookup ''+15559998888'',
           Write None (message\<lparr>From := ''unknownuser''\<rparr>)],
        pending := [(1, message\<lparr>From := ''unknownuser''\<rparr>)]\<rparr>)"
    by (simp add: deliver_no_account [OF n b] store_Put_ok sender_name_def message_def)
      (simp add: nobody_def allocateID_def)
  have "pending nobody_no_writes = []"
    by (simp add: nobody_no_writes_def nobody_def)
  with a b c first second show ?thesis
    by (simp add: deliver_empty)
qed

text \<open>
  C2. The identity of a recipient is looked up for a non-empty recipient only: the
  empty one is rejected at line 137, before the lookup, and the records that the
  flusher retries were written after that check. A retry for such a recipient whose
  lookup returns no identity, or an identity with \<open>Available\<close> set, looks up both names
  and returns "retried delivery but the recipient still doesn't have an account"
  (Failed(PersistentNonDelivery)). And every retry, whatever its arguments and the
  world, writes nothing to the store (the world changes only by events added to the
  trace, none of them a write) and never returns "stored pending voicemail".
\<close>

theorem retry_not_queued:
  "(to \<noteq> [] \<and> absent_or_available (identity_at w to) \<longrightarrow>
      deliverVoicemail from to audioURL True w =
        (Returns (Some (StillNoAccount to)),
         w\<lparr>trace := trace w @ [Lookup (sender_name from), Lookup to]\<rparr>)) \<and>
   (\<exists>evs. snd (deliverVoicemail from to audioURL True w) = w\<lparr>trace := trace w @ evs\<rparr> \<and>
          (\<forall>k v. Write k v \<notin> set evs)) \<and>
   (\<forall>t k. fst (deliverVoicemail from to audioURL True w) \<noteq>
            Returns (Some (StoredPending t k)))"
proof -
  have "to \<noteq> [] \<and> absent_or_available (identity_at w to) \<longrightarrow>
      deliverVoicemail from to audioURL True w =
        (Returns (Some (StillNoAccount to)),
         w\<lparr>trace := trace w @ [Lookup (sender_name from), Lookup to]\<rparr>)"
    by (simp add: deliver_no_account)
  moreover from deliver_retry_frame [of "from" to audioURL w]
  have "\<exists>evs. snd (deliverVoicemail from to audioURL True w) = w\<lparr>trace := trace w @ evs\<rparr> \<and>
          (\<forall>k v. Write k v \<notin> set evs)"
    by blast
  moreover from deliver_retry_frame [of "from" to audioURL w]
  have "\<forall>t k. fst (deliverVoicemail from to audioURL True w) \<noteq>
            Returns (Some (StoredPending t k))"
    by blast
  ultimately show ?thesis by blast
qed

theorem retry_not_queued_witness:
  "''+15559998888'' \<noteq> [] \<and> absent_or_available (identity_at nobody ''+15559998888'') \<and>
   deliverVoicemail ''+15551230000'' ''+15559998888'' ''https://api.twilio.com/rec123.mp3''
     True nobody =
     (Returns (Some (StillNoAccount ''+15559998888'')),
      nobody\<lparr>trace := [Lookup ''+15551230000'', Lookup ''+15559998888'']\<rparr>)"
proof -
  have h: "absent_or_available (identity_at nobody ''+15559998888'')"
    by (simp add: absent_or_available_def identity_at_def nobody_def)
  have "trace nobody = []" by (simp add: nobody_def)
  with h retry_not_queued [of "''+15559998888''" nobody "''+15551230000''"
      "''https://api.twilio.com/rec123.mp3''"]
  show ?thesis
    by (simp add: sender_name_def)
qed

text \<open>
  C4. When the lookups of sender and recipient both return an identity with
  \<open>Available\<close> unset, \<open>fromId\<close> and \<open>toId\<close> being the ids of their account keys, the call
  looks up both names and calls \<^verbatim>\<open>postStream\<close> once: for account \<open>fromId\<close>, with stream
  id 0 and the fields \<open>participant\<close> (\<open>toId\<close> in decimal) and \<open>audio_url\<close> (the URL). It
  does nothing else: no second post, no write, the store unchanged. It returns nil
  (Delivered) when the post succeeds and the post's error when it fails. This holds
  for a first attempt and for a retry.
\<close>

theorem linked_accounts_post_once:
  assumes "identity_at w from = Inr fi" and "\<not> Available fi" and "Account fi = Some fromId"
    and "identity_at w to = Inr ti" and "\<not> Available ti" and "Account ti = Some toId"
  shows "deliverVoicemail from to audioURL retrying w =
      (Returns
         (case post_result (w\<lparr>trace := trace w @ [Lookup from, Lookup to]\<rparr>) fromId 0
                 [(''participant'', [FormatInt toId]), (''audio_url'', [audioURL])] of
            Inl e \<Rightarrow> Some (PostError e)
          | Inr stream \<Rightarrow> None),
       w\<lparr>trace := trace w @
            [Lookup from, Lookup to,
             Post fromId 0 [(''participant'', [FormatInt toId]), (''audio_url'', [audioURL])]]\<rparr>)"
proof -
  from assms(1) have "from \<noteq> []" by (rule identity_at_nonempty)
  then have name: "sender_name from = from" by (simp add: sender_name_def)
  from assms(1) have "identity_at w (sender_name from) = Inr fi"
    by (simp add: name)
  from deliver_direct [OF assms(4,5,6) this assms(2,3)] show ?thesis
    by (simp add: name Let_def)
qed

theorem linked_accounts_post_once_witness:
  "deliverVoicemail ''+15551230000'' ''+15559998888'' ''https://api.twilio.com/rec123.mp3''
     False both_linked =
     (Returns None,
      both_linked\<lparr>trace :=
        [Lookup ''+15551230000'', Lookup ''+15559998888'',
         Post 11 0 [(''participant'', [''22'']),
                    (''audio_url'', [''https://api.twilio.com/rec123.mp3''])]]\<rparr>)"
proof -
  have f: "identity_at both_linked ''+15551230000'' = Inr caller"
    and t: "identity_at both_linked ''+15559998888'' = Inr callee"
    by (simp_all add: identity_at_def both_linked_def)
  have fa: "\<not> Available caller" "Account caller = Some 11"
    and ta: "\<not> Available callee" "Account callee = Some 22"
    by (simp_all add: caller_def callee_def)
  have "post_result (both_linked\<lparr>trace := tr\<rparr>) a s fs = Inr answer" for tr a s fs
    by (simp add: post_result_def postStream_def both_linked_def Let_def)
  moreover have "trace both_linked = []" by (simp add: both_linked_def)
  ultimately show ?thesis
    using linked_accounts_post_once [OF f fa t ta, of "''https://api.twilio.com/rec123.mp3''" False]
    by (simp add: FormatInt_22)
qed

text \<open>
  C3, as the program has it. The claim as stated fails in two ways: when the first
  post fails there is no stream and no second post, the call returning the first
  post's error; and for an empty sender the \<open>participant\<close> field is \<open>unknownuser\<close>, the
  name whose identity is looked up as well.

  Amended: let the lookup of the recipient return an identity with \<open>Available\<close> unset
  and an account key of id \<open>toId\<close>, and let the lookup of the sender (\<open>unknownuser\<close> for
  an empty one) return no identity, or one with \<open>Available\<close> set. The call looks up both
  names and calls \<^verbatim>\<open>postStream\<close> for account \<open>toId\<close> with stream id 0 and the fields
  \<open>participant\<close> (the sender) and \<open>reason\<close> (\<open>voicemail\<close>). If that post fails, the call
  returns its error and does nothing more. If it returns a stream, the call makes
  exactly one more post, with the stream's id and the field \<open>audio_url\<close>, for the
  account of the first entry of \<open>Others\<close>, or for \<open>toId\<close> when \<open>Others\<close> is empty, and
  returns nil when that post succeeds and its error when it fails. Nothing is written
  to the store.
\<close>

theorem reverse_creation:
  assumes "identity_at w to = Inr ti" and "\<not> Available ti" and "Account ti = Some toId"
    and "absent_or_available (identity_at w (sender_name from))"
  shows "deliverVoicemail from to audioURL retrying w =
     (let w1 = w\<lparr>trace := trace w @ [Lookup (sender_name from), Lookup to]\<rparr>;
          create = [(''participant'', [sender_name from]), (''reason'', [''voicemail''])];
          w2 = w\<lparr>trace := trace w @ [Lookup (sender_name from), Lookup to, Post toId 0 create]\<rparr>
      in case post_result w1 toId 0 create of
           Inl e \<Rightarrow> (Returns (Some (PostError e)), w2)
         | Inr stream \<Rightarrow>
             let fromId = (case Others stream of [] \<Rightarrow> toId | p # ps \<Rightarrow> Id_Participant p);
                 append = [(''audio_url'', [audioURL])]
             in (Returns (case post_result w2 fromId (Id_Stream stream) append of
                            Inl e \<Rightarrow> Some (PostError e)
                          | Inr s \<Rightarrow> None),
                 w\<lparr>trace := trace w @
                      [Lookup (sender_name from), Lookup to, Post toId 0 create,
                       Post fromId (Id_Stream stream) append]\<rparr>))"
  by (simp add: deliver_reverse [OF assms] Let_def split: sum.split)

theorem reverse_creation_witness:
  "deliverVoicemail ''+15551230000'' ''+15559998888'' ''https://api.twilio.com/rec123.mp3''
     False callee_linked =
     (Returns None,
      callee_linked\<lparr>trace :=
        [Lookup ''+15551230000'', Lookup ''+15559998888'',
         Post 22 0 [(''participant'', [''+15551230000'']), (''reason'', [''voicemail''])],
         Post 33 5 [(''audio_url'', [''https://api.twilio.com/rec123.mp3''])]]\<rparr>) \<and>
   deliverVoicemail ''+15551230000'' ''+15559998888'' ''https://api.twilio.com/rec123.mp3''
     False callee_alone =
     (Returns None,
      callee_alone\<lparr>trace :=
        [Lookup ''+15551230000'', Lookup ''+15559998888'',
         Post 22 0 [(''participant'', [''+15551230000'']), (''reason'', [''voicemail''])],
         Post 22 5 [(''audio_url'', [''https://api.twilio.com/rec123.mp3''])]]\<rparr>)"
proof -
  have ta: "\<not> Available callee" "Account callee = Some 22"
    by (simp_all add: callee_def)
  have t1: "identity_at callee_linked ''+15559998888'' = Inr callee"
    and f1: "absent_or_available (identity_at callee_linked (sender_name ''+15551230000''))"
    by (simp_all add: identity_at_def callee_linked_def absent_or_available_def sender_name_def)
  have p1: "post_result (callee_linked\<lparr>trace := tr\<rparr>) a s fs = Inr answer" for tr a s fs
    by (simp add: post_result_def postStream_def callee_linked_def both_linked_def Let_def)
  have tr1: "trace callee_linked = []"
    by (simp add: callee_linked_def both_linked_def)
  have first: "deliverVoicemail ''+15551230000'' ''+15559998888''
      ''https://api.twilio.com/rec123.mp3'' False callee_linked =
     (Returns None,
      callee_linked\<lparr>trace :=
        [Lookup ''+15551230000'', Lookup ''+15559998888'',
         Post 22 0 [(''participant'', [''+15551230000'']), (''reason'', [''voicemail''])],
         Post 33 5 [(''audio_url'', [''https://api.twilio.com/rec123.mp3''])]]\<rparr>)"
    using reverse_creation [OF t1 ta f1, of "''https://api.twilio.com/rec123.mp3''" False]
    by (simp add: p1 tr1 Let_def sender_name_def answer_def)
  have t2: "identity_at callee_alone ''+15559998888'' = Inr callee"
    and f2: "absent_or_available (identity_at callee_alone (sender_name ''+15551230000''))"
    by (simp_all add: identity_at_def callee_alone_def callee_linked_def
        absent_or_available_def sender_name_def callee_def)
  have p2: "post_result (callee_alone\<lparr>trace := tr\<rparr>) a s fs =
      Inr \<lparr>Id_Stream = 5, Others = []\<rparr>" for tr a s fs
    by (simp add: post_result_def postStream_def callee_alone_def Let_def)
  have tr2: "trace callee_alone = []"
    by (simp add: callee_alone_def callee_linked_def both_linked_def)
  have second: "deliverVoicemail ''+15551230000'' ''+15559998888''
      ''https://api.twilio.com/rec123.mp3'' False callee_alone =
     (Returns None,
      callee_alone\<lparr>trace :=
        [Lookup ''+15551230000'', Lookup ''+15559998888'',
         Post 22 0 [(''participant'', [''+15551230000'']), (''reason'', [''voicemail''])],
         Post 22 5 [(''audio_url'', [''https://api.twilio.com/rec123.mp3''])]]\<rparr>)"
    using reverse_creation [OF t2 ta f2, of "''https://api.twilio.com/rec123.mp3''" False]
    by (simp add: p2 tr2 Let_def sender_name_def)
  from first second show ?thesis by simp
qed

theorem reverse_counterexample:
  "identity_at callee_linked_offline ''+15559998888'' = Inr callee \<and>
   \<not> Available callee \<and>
   identity_at callee_linked_offline ''+15551230000'' = Inl ErrNoSuchEntity \<and>
   deliverVoicemail ''+15551230000'' ''+15559998888'' ''https://api.twilio.com/rec123.mp3''
     False callee_linked_offline =
     (Returns (Some (PostError TransportError)),
      callee_linked_offline\<lparr>trace :=
        [Lookup ''+15551230000'', Lookup ''+15559998888'',
         Post 22 0 [(''participant'', [''+15551230000'']), (''reason'', [''voicemail''])]]\<rparr>) \<and>
   identity_at callee_linked [] = Inl ErrIncompleteKey \<and>
   deliverVoicemail [] ''+15559998888'' ''https://api.twilio.com/rec123.mp3''
     False callee_linked =
     (Returns None,
      callee_linked\<lparr>trace :=
        [Lookup ''unknownuser'', Lookup ''+15559998888'',
         Post 22 0 [(''participant'', [''unknownuser'']), (''reason'', [''voicemail''])],
         Post 33 5 [(''audio_url'', [''https://api.twilio.com/rec123.mp3''])]]\<rparr>)"
proof -
  have ta: "\<not> Available callee" "Account callee = Some 22"
    by (simp_all add: callee_def)
  have t1: "identity_at callee_linked_offline ''+15559998888'' = Inr callee"
    and n1: "identity_at callee_linked_offline ''+15551230000'' = Inl ErrNoSuchEntity"
    by (simp_all add: identity_at_def callee_linked_offline_def callee_linked_def)
  have f1: "absent_or_available
      (identity_at callee_linked_offline (sender_name ''+15551230000''))"
    by (simp add: n1 absent_or_available_def sender_name_def)
  have p1: "post_result (callee_linked_offline\<lparr>trace := tr\<rparr>) a s fs = Inl TransportError"
    for tr a s fs
    by (simp add: post_result_def postStream_def callee_linked_offline_def Let_def)
  have tr1: "trace callee_linked_offline = []"
    by (simp add: callee_linked_offline_def callee_linked_def both_linked_def)
  have first: "deliverVoicemail ''+15551230000'' ''+15559998888''
      ''https://api.twilio.com/rec123.mp3'' False callee_linked_offline =
     (Returns (Some (PostError TransportError)),
      callee_linked_offline\<lparr>trace :=
        [Lookup ''+15551230000'', Lookup ''+15559998888'',
         Post 22 0 [(''participant'', [''+15551230000'']), (''reason'', [''voicemail''])]]\<rparr>)"
    by (simp add: deliver_reverse [OF t1 ta f1] p1 tr1 Let_def sender_name_def)
  have t2: "identity_at callee_linked ''+15559998888'' = Inr callee"
    and n2: "identity_at callee_linked [] = Inl ErrIncompleteKey"
    by (simp_all add: identity_at_def callee_linked_def)
  have f2: "absent_or_available (identity_at callee_linked (sender_name []))"
    by (simp add: identity_at_def callee_linked_def absent_or_available_def sender_name_def)
  have p2: "post_result (callee_linked\<lparr>trace := tr\<rparr>) a s fs = Inr answer" for tr a s fs
    by (simp add: post_result_def postStream_def callee_linked_def both_linked_def Let_def)
  have tr2: "trace callee_linked = []"
    by (simp add: callee_linked_def both_linked_def)
  have second: "deliverVoicemail [] ''+15559998888''
      ''https://api.twilio.com/rec123.mp3'' False callee_linked =
     (Returns None,
      callee_linked\<lparr>trace :=
        [Lookup ''unknownuser'', Lookup ''+15559998888'',
         Post 22 0 [(''participant'', [''unknownuser'']), (''reason'', [''voicemail''])],
         Post 33 5 [(''audio_url'', [''https://api.twilio.com/rec123.mp3''])]]\<rparr>)"
    by (simp add: deliver_reverse [OF t2 ta f2] p2 tr2 Let_def sender_name_def answer_def)
  from ta t1 n1 first n2 second show ?thesis by simp
qed

text \<open>
  C6, as the program has it. The claim as stated fails for the two lookups:
  \<^verbatim>\<open>getIdentityPair\<close> turns every error of \<^verbatim>\<open>store.Get\<close> into a nil identity and returns
  no error, so with a store that cannot be reached the voicemail is queued as if the
  recipient had no account, and a sender whose lookup fails is treated as a sender
  without an account, the call ending with nil.

  Amended: an error of the write of the pending voicemail is returned to the caller,
  in the error "failed to store pending voicemail" that carries it, and the store is
  unchanged. An error of a lookup is not returned: the call gives the same result, and
  has the same effects, as in the world where that lookup answers "no such entity".
\<close>

theorem storage_errors:
  "(to \<noteq> [] \<and> absent_or_available (identity_at w to) \<and>
    put_fault w (trace w @ [Lookup (sender_name from), Lookup to]) = Some e \<longrightarrow>
      deliverVoicemail from to audioURL False w =
        (Returns (Some (StoreFailed to e)),
         w\<lparr>trace := trace w @
              [Lookup (sender_name from), Lookup to,
               Write None \<lparr>From = sender_name from, To = to, AudioURL = audioURL,
                           Delivered = False\<rparr>]\<rparr>)) \<and>
   deliverVoicemail from to audioURL retrying (not_found_for_errors w) =
     (fst (deliverVoicemail from to audioURL retrying w),
      not_found_for_errors (snd (deliverVoicemail from to audioURL retrying w)))"
proof -
  let ?w1 = "w\<lparr>trace := trace w @ [Lookup (sender_name from), Lookup to]\<rparr>"
  have "deliverVoicemail from to audioURL False w =
        (Returns (Some (StoreFailed to e)),
         w\<lparr>trace := trace w @
              [Lookup (sender_name from), Lookup to,
               Write None \<lparr>From = sender_name from, To = to, AudioURL = audioURL,
                           Delivered = False\<rparr>]\<rparr>)"
    if "to \<noteq> []" and "absent_or_available (identity_at w to)"
      and "put_fault w (trace w @ [Lookup (sender_name from), Lookup to]) = Some e"
  proof -
    from that(3) have "put_fault ?w1 (trace ?w1) = Some e" by simp
    from store_Put_failed [OF this] show ?thesis
      by (simp add: deliver_no_account [OF that(1,2)])
  qed
  then show ?thesis
    by (simp add: deliver_not_found)
qed

theorem storage_errors_witness:
  "deliverVoicemail ''+15551230000'' ''+15559998888'' ''https://api.twilio.com/rec123.mp3''
     False nobody_no_writes =
     (Returns (Some (StoreFailed ''+15559998888'' ErrUnavailable)),
      nobody_no_writes\<lparr>trace :=
        [Lookup ''+15551230000'', Lookup ''+15559998888'', Write None message]\<rparr>) \<and>
   not_found_for_errors lookups_fail = nobody \<and>
   fst (deliverVoicemail ''+15551230000'' ''+15559998888''
          ''https://api.twilio.com/rec123.mp3'' True lookups_fail) =
   fst (deliverVoicemail ''+15551230000'' ''+15559998888''
          ''https://api.twilio.com/rec123.mp3'' True nobody)"
proof -
  have h: "absent_or_available (identity_at nobody_no_writes ''+15559998888'')"
    by (simp add: absent_or_available_def identity_at_def nobody_no_writes_def nobody_def)
  have p: "put_fault nobody_no_writes
      (trace nobody_no_writes @ [Lookup (sender_name ''+15551230000''), Lookup ''+15559998888''])
      = Some ErrUnavailable"
    by (simp add: nobody_no_writes_def)
  have tr: "trace nobody_no_writes = []"
    by (simp add: nobody_no_writes_def nobody_def)
  have first: "deliverVoicemail ''+15551230000'' ''+15559998888''
      ''https://api.twilio.com/rec123.mp3'' False nobody_no_writes =
     (Returns (Some (StoreFailed ''+15559998888'' ErrUnavailable)),
      nobody_no_writes\<lparr>trace :=
        [Lookup ''+15551230000'', Lookup ''+15559998888'', Write None message]\<rparr>)"
    using storage_errors [of "''+15559998888''" nobody_no_writes "''+15551230000''"
        ErrUnavailable "''https://api.twilio.com/rec123.mp3''"] h p
    by (simp add: tr sender_name_def message_def)
  have same: "not_found_for_errors lookups_fail = nobody"
    by (simp add: not_found_for_errors_def lookups_fail_def nobody_def)
  from storage_errors [of "''+15559998888''" lookups_fail "''+15551230000''" ErrUnavailable
      "''https://api.twilio.com/rec123.mp3''" True]
  have "fst (deliverVoicemail ''+15551230000'' ''+15559998888''
          ''https://api.twilio.com/rec123.mp3'' True (not_found_for_errors lookups_fail)) =
    fst (deliverVoicemail ''+15551230000'' ''+15559998888''
          ''https://api.twilio.com/rec123.mp3'' True lookups_fail)"
    by simp
  with first same show ?thesis by simp
qed

theorem storage_error_counterexample:
  "identity_at lookups_fail ''+15559998888'' = Inl ErrUnavailable \<and>
   deliverVoicemail ''+15551230000'' ''+15559998888'' ''https://api.twilio.com/rec123.mp3''
     False lookups_fail =
     (Returns (Some (StoredPending ''+15559998888'' 1)),
      lookups_fail\<lparr>trace :=
          [Lookup ''+15551230000'', Lookup ''+15559998888'', Write None message],
        pending := [(1, message)]\<rparr>) \<and>
   identity_at sender_lookup_fails ''+15551230000'' = Inl ErrUnavailable \<and>
   deliverVoicemail ''+15551230000'' ''+15559998888'' ''https://api.twilio.com/rec123.mp3''
     False sender_lookup_fails =
     (Returns None,
      sender_lookup_fails\<lparr>trace :=
        [Lookup ''+15551230000'', Lookup ''+15559998888'',
         Post 22 0 [(''participant'', [''+15551230000'']), (''reason'', [''voicemail''])],
         Post 33 5 [(''audio_url'', [''https://api.twilio.com/rec123.mp3''])]]\<rparr>)"
proof -
  have n: "''+15559998888'' \<noteq> []" by simp
  have l: "identity_at lookups_fail ''+15559998888'' = Inl ErrUnavailable"
    by (simp add: identity_at_def lookups_fail_def)
  then have a: "absent_or_available (identity_at lookups_fail ''+15559998888'')"
    by (simp add: absent_or_available_def)
  have "put_fault (lookups_fail\<lparr>trace := tr\<rparr>) tr' = None" for tr tr'
    by (simp add: lookups_fail_def nobody_def)
  then have first: "deliverVoicemail ''+15551230000'' ''+15559998888''
      ''https://api.twilio.com/rec123.mp3'' False lookups_fail =
     (Returns (Some (StoredPending ''+15559998888'' 1)),
      lookups_fail\<lparr>trace :=
          [Lookup ''+15551230000'', Lookup ''+15559998888'', Write None message],
        pending := [(1, message)]\<rparr>)"
    by (simp add: deliver_no_account [OF n a] store_Put_ok sender_name_def message_def)
      (simp add: lookups_fail_def nobody_def allocateID_def)
  have ta: "\<not> Available callee" "Account callee = Some 22"
    by (simp_all add: callee_def)
  have t: "identity_at sender_lookup_fails ''+15559998888'' = Inr callee"
    and s: "identity_at sender_lookup_fails ''+15551230000'' = Inl ErrUnavailable"
    by (simp_all add: identity_at_def sender_lookup_fails_def)
  have f: "absent_or_available (identity_at sender_lookup_fails (sender_name ''+15551230000''))"
    by (simp add: s absent_or_available_def sender_name_def)
  have p: "post_result (sender_lookup_fails\<lparr>trace := tr\<rparr>) a s fs = Inr answer" for tr a s fs
    by (simp add: post_result_def postStream_def sender_lookup_fails_def both_linked_def Let_def)
  have tr: "trace sender_lookup_fails = []"
    by (simp add: sender_lookup_fails_def both_linked_def)
  have second: "deliverVoicemail ''+15551230000'' ''+15559998888''
      ''https://api.twilio.com/rec123.mp3'' False sender_lookup_fails =
     (Returns None,
      sender_lookup_fails\<lparr>trace :=
        [Lookup ''+15551230000'', Lookup ''+15559998888'',
         Post 22 0 [(''participant'', [''+15551230000'']), (''reason'', [''voicemail''])],
         Post 33 5 [(''audio_url'', [''https://api.twilio.com/rec123.mp3''])]]\<rparr>)"
    by (simp add: deliver_reverse [OF t ta f] p tr Let_def sender_name_def answer_def)
  from l first s second show ?thesis by simp
qed


section \<open>The loop of flushPendingQueue\<close>

text \<open>
  On an iterator over finitely many results the loop ends, with the result that the
  recursion over the list computes.
\<close>

lemma flush_loop_scan: "flush_loop (scan rs) i w = Some (flush_results (drop i rs) w)"
proof (induction "length rs - i" arbitrary: i w)
  case 0
  then have "scan rs i = Done" "drop i rs = []"
    by (simp_all add: scan_def)
  then show ?case
    by (simp add: flush_loop.simps [of "scan rs" i])
next
  case (Suc n)
  then have less: "i < length rs" and next_step: "n = length rs - Suc i"
    by simp_all
  from less have here: "scan rs i = rs ! i" and rest: "drop i rs = rs ! i # drop (Suc i) rs"
    by (simp_all add: scan_def Cons_nth_drop_Suc)
  show ?case
  proof (cases "rs ! i")
    case Done
    then show ?thesis
      by (simp add: flush_loop.simps [of "scan rs" i] here rest)
  next
    case (NextError err)
    then show ?thesis
      by (simp add: flush_loop.simps [of "scan rs" i] here rest Suc.hyps(1) [OF next_step])
  next
    case (Entity key voicemail)
    obtain r w1 where step: "deliverPendingVoicemail key voicemail w = (r, w1)"
      by (cases "deliverPendingVoicemail key voicemail w")
    show ?thesis
    proof (cases r)
      case Panics
      with Entity step show ?thesis
        by (simp add: flush_loop.simps [of "scan rs" i] here rest)
    next
      case (Returns err)
      with Entity step show ?thesis
        by (cases err)
          (simp_all add: flush_loop.simps [of "scan rs" i] here rest Suc.hyps(1) [OF next_step])
    qed
  qed
qed

lemma flushPendingQueue_scan: "flushPendingQueue (scan rs) w = Some (flush_results rs w)"
  by (simp add: flushPendingQueue_def flush_loop_scan)

text \<open>
  With an iterator that returns the same error from some call on, the loop never ends.
\<close>

lemma flush_loop_returns:
  assumes "flush_loop t i w = Some y"
  shows "\<exists>n\<ge>i. \<forall>err. t n \<noteq> NextError err"
  using assms
proof (induction rule: flush_loop.raw_induct [rotated 1, consumes 1])
  case (1 flush_loop t i w y)
  show ?case
  proof (cases "t i")
    case Done
    then have "\<forall>err. t i \<noteq> NextError err" by simp
    then show ?thesis by blast
  next
    case (NextError err)
    with "1.hyps" have "flush_loop t (Suc i) (log_Printf (FailedToGet err) w) = Some y"
      by (simp only: next_result.case)
    from "1.IH" [OF this] obtain n where "n \<ge> Suc i" "\<forall>err. t n \<noteq> NextError err"
      by blast
    then have "n \<ge> i \<and> (\<forall>err. t n \<noteq> NextError err)" by simp
    then show ?thesis by blast
  next
    case (Entity key voicemail)
    then have "\<forall>err. t i \<noteq> NextError err" by simp
    then show ?thesis by blast
  qed
qed

lemma flush_loop_sticky_error:
  assumes "\<forall>n\<ge>i. t n = NextError err"
  shows "flush_loop t i w = None"
proof (cases "flush_loop t i w")
  case None
  then show ?thesis .
next
  case (Some y)
  from flush_loop_returns [OF this] assms show ?thesis by auto
qed

section \<open>Properties of the queue flusher\<close>

text \<open>
  What \<^verbatim>\<open>deliverPendingVoicemail\<close> does with the retry's result: an error or a panic is
  passed on with nothing written; after a nil result the record is written back with
  \<^verbatim>\<open>Delivered\<close> set, under its key.
\<close>

lemma deliverPending_eq:
  "deliverPendingVoicemail key voicemail w =
     (let d = deliverVoicemail (From voicemail) (To voicemail) (AudioURL voicemail) True w in
      if fst d = Returns None
      then (case put_fault (snd d) (trace (snd d)) of
              Some e \<Rightarrow>
                (Returns (Some (PutError e)),
                 (snd d)\<lparr>trace := trace (snd d) @
                    [Write (Some key) (voicemail\<lparr>Delivered := True\<rparr>)]\<rparr>)
            | None \<Rightarrow>
                (Returns None,
                 (snd d)\<lparr>trace := trace (snd d) @
                      [Write (Some key) (voicemail\<lparr>Delivered := True\<rparr>)],
                    pending := AList.update key (voicemail\<lparr>Delivered := True\<rparr>)
                      (pending (snd d))\<rparr>))
      else d)"
proof -
  obtain r w1 where d: "deliverVoicemail (From voicemail) (To voicemail) (AudioURL voicemail)
      True w = (r, w1)"
    by (cases "deliverVoicemail (From voicemail) (To voicemail) (AudioURL voicemail) True w")
  show ?thesis
  proof (cases r)
    case Panics
    with d show ?thesis by (simp add: deliverPendingVoicemail_def)
  next
    case (Returns err)
    show ?thesis
    proof (cases err)
      case (Some e)
      with d Returns show ?thesis by (simp add: deliverPendingVoicemail_def)
    next
      case None
      with d Returns show ?thesis
        by (cases "put_fault w1 (trace w1)")
          (simp_all add: deliverPendingVoicemail_def store_Put_failed store_Put_key)
    qed
  qed
qed

lemma deliver_retry_pending:
  "pending (snd (deliverVoicemail from to audioURL True w)) = pending w"
proof -
  from deliver_retry_frame [of "from" to audioURL w]
  obtain evs where "snd (deliverVoicemail from to audioURL True w) = w\<lparr>trace := trace w @ evs\<rparr>"
    by blast
  then show ?thesis by simp
qed

text \<open>
  The retry of a voicemail between the two linked accounts, in any world that has the
  identities and the platform of \<open>both_linked\<close>; and its effect on the record when the
  store's writes succeed.
\<close>

lemma deliver_linked:
  assumes "identities w = identities both_linked" and "http_reply w = http_reply both_linked"
    and "From m = ''+15551230000''" and "To m = ''+15559998888''"
  shows "deliverVoicemail (From m) (To m) (AudioURL m) True w =
     (Returns None,
      w\<lparr>trace := trace w @
        [Lookup ''+15551230000'', Lookup ''+15559998888'',
         Post 11 0 [(''participant'', [''22'']), (''audio_url'', [AudioURL m])]]\<rparr>)"
proof -
  have t: "identity_at w (To m) = Inr callee"
    and f: "identity_at w (sender_name (From m)) = Inr caller"
    by (simp_all add: identity_at_def assms both_linked_def sender_name_def)
  have fa: "\<not> Available caller" "Account caller = Some 11"
    and ta: "\<not> Available callee" "Account callee = Some 22"
    by (simp_all add: caller_def callee_def)
  have "post_result (w\<lparr>trace := tr\<rparr>) a s fs = Inr answer" for tr a s fs
    by (simp add: post_result_def postStream_def assms(2) both_linked_def Let_def)
  then show ?thesis
    by (simp add: deliver_direct [OF t ta f fa] Let_def FormatInt_22)
      (simp add: assms(3,4) sender_name_def)
qed

lemma deliverPending_linked:
  assumes "identities w = identities both_linked" and "http_reply w = http_reply both_linked"
    and "From m = ''+15551230000''" and "To m = ''+15559998888''"
    and "put_fault w = (\<lambda>tr. None)"
  shows "deliverPendingVoicemail k m w =
     (Returns None,
      w\<lparr>trace := trace w @
          [Lookup ''+15551230000'', Lookup ''+15559998888'',
           Post 11 0 [(''participant'', [''22'']), (''audio_url'', [AudioURL m])],
           Write (Some k) (m\<lparr>Delivered := True\<rparr>)],
        pending := AList.update k (m\<lparr>Delivered := True\<rparr>) (pending w)\<rparr>)"
  by (simp add: deliverPending_eq deliver_linked [OF assms(1-4)] Let_def assms(5))

lemma failing_after: "length rs \<le> n \<Longrightarrow> failing rs err n = NextError err"
  by (simp add: failing_def)

text \<open>Once such an iterator has given its results, the loop does not end.\<close>

lemma flush_loop_failing: "flush_loop (failing rs err) (length rs) w = None"
proof (rule flush_loop_sticky_error)
  show "\<forall>n\<ge>length rs. failing rs err n = NextError err"
    by (simp add: failing_after)
qed

text \<open>
  C5 does not hold of the program. At a storage error the loop logs and calls \<^verbatim>\<open>t.Next\<close>
  again (\<^verbatim>\<open>continue\<close>, line 203); the iterator returns the same error, and so on: the scan
  is never stopped and \<^verbatim>\<open>flushPendingQueue\<close> never returns. Here the store holds two
  undelivered voicemails and the iterator yields the first and then fails: the first is
  delivered, and the result is \<open>None\<close>, the value of a loop that does not end.
\<close>

theorem flush_never_stops_at_storage_error:
  "flushPendingQueue (failing [Entity 1 message] ErrUnavailable) two_pending = None"
proof -
  let ?t = "failing [Entity 1 message] ErrUnavailable"
  have here: "?t 0 = Entity 1 message"
    by (simp add: failing_def)
  have delivered: "deliverPendingVoicemail 1 message two_pending =
     (Returns None,
      two_pending\<lparr>trace := trace two_pending @
          [Lookup ''+15551230000'', Lookup ''+15559998888'',
           Post 11 0 [(''participant'', [''22'']), (''audio_url'', [AudioURL message])],
           Write (Some 1) (message\<lparr>Delivered := True\<rparr>)],
        pending := AList.update 1 (message\<lparr>Delivered := True\<rparr>) (pending two_pending)\<rparr>)"
    (is "_ = (_, ?w1)")
    by (rule deliverPending_linked) (simp_all add: two_pending_def both_linked_def message_def)
  have step: "flush_loop ?t 0 two_pending =
      flush_loop ?t (Suc 0) (log_Printf (DeliveredPending (To message)) ?w1)"
    by (simp add: flush_loop.simps [of ?t 0] here delivered)
  have "\<forall>n\<ge>Suc 0. ?t n = NextError ErrUnavailable"
    by (simp add: failing_after)
  then have "flush_loop ?t (Suc 0) (log_Printf (DeliveredPending (To message)) ?w1) = None"
    by (rule flush_loop_sticky_error)
  with step show ?thesis
    by (simp add: flushPendingQueue_def)
qed

text \<open>
  C9, as the program has it. The claim as stated fails when the write that marks the
  record fails: the retry has delivered the voicemail, and the record stays
  undelivered.

  Amended: let the flusher process the record \<open>voicemail\<close> that the store holds,
  undelivered, under \<open>key\<close>. The record is marked (the store holds, under \<open>key\<close>, the
  record with \<open>Delivered\<close> set and the other fields as they were, and every other record
  as before) if and only if the retry returns nil and the write that marks the record
  succeeds. In every other case (the retry returns an error or panics, or the write
  fails) the store's records are as before: the record is still there, undelivered, with
  its sender, recipient and URL unchanged.
\<close>

theorem marked_iff_delivered_and_written:
  assumes "map_of (pending w) key = Some voicemail" and "\<not> Delivered voicemail"
    and "d = deliverVoicemail (From voicemail) (To voicemail) (AudioURL voicemail) True w"
    and "p = deliverPendingVoicemail key voicemail w"
  shows "(fst d = Returns None \<and> put_fault (snd d) (trace (snd d)) = None \<longrightarrow>
            fst p = Returns None \<and>
            pending (snd p) = AList.update key (voicemail\<lparr>Delivered := True\<rparr>) (pending w) \<and>
            map_of (pending (snd p)) key = Some (voicemail\<lparr>Delivered := True\<rparr>)) \<and>
         (\<not> (fst d = Returns None \<and> put_fault (snd d) (trace (snd d)) = None) \<longrightarrow>
            fst p \<noteq> Returns None \<and>
            pending (snd p) = pending w \<and>
            map_of (pending (snd p)) key = Some voicemail)"
proof -
  have frame: "pending (snd d) = pending w"
    unfolding assms(3) by (rule deliver_retry_pending)
  have p: "p =
     (if fst d = Returns None
      then (case put_fault (snd d) (trace (snd d)) of
              Some e \<Rightarrow>
                (Returns (Some (PutError e)),
                 (snd d)\<lparr>trace := trace (snd d) @
                    [Write (Some key) (voicemail\<lparr>Delivered := True\<rparr>)]\<rparr>)
            | None \<Rightarrow>
                (Returns None,
                 (snd d)\<lparr>trace := trace (snd d) @
                      [Write (Some key) (voicemail\<lparr>Delivered := True\<rparr>)],
                    pending := AList.update key (voicemail\<lparr>Delivered := True\<rparr>)
                      (pending (snd d))\<rparr>))
      else d)"
    unfolding assms(3,4) deliverPending_eq Let_def ..
  show ?thesis
  proof (cases "fst d = Returns None")
    case False
    with p frame assms(1) show ?thesis by simp
  next
    case nil: True
    show ?thesis
    proof (cases "put_fault (snd d) (trace (snd d))")
      case None
      with p nil frame show ?thesis
        by (simp add: update_conv')
    next
      case (Some e)
      with p nil frame assms(1) show ?thesis by simp
    qed
  qed
qed

theorem marked_iff_delivered_and_written_witness:
  "map_of (pending both_linked) 1 = Some message \<and> \<not> Delivered message \<and>
   deliverPendingVoicemail 1 message both_linked =
     (Returns None,
      both_linked\<lparr>trace :=
          [Lookup ''+15551230000'', Lookup ''+15559998888'',
           Post 11 0 [(''participant'', [''22'']),
                      (''audio_url'', [''https://api.twilio.com/rec123.mp3''])],
           Write (Some 1) (message\<lparr>Delivered := True\<rparr>)],
        pending := [(1, message\<lparr>Delivered := True\<rparr>)]\<rparr>) \<and>
   map_of (pending nobody) 1 = None \<and>
   map_of (pending (nobody\<lparr>pending := [(1, message)]\<rparr>)) 1 = Some message \<and>
   fst (deliverPendingVoicemail 1 message (nobody\<lparr>pending := [(1, message)]\<rparr>)) \<noteq>
     Returns None \<and>
   pending (snd (deliverPendingVoicemail 1 message (nobody\<lparr>pending := [(1, message)]\<rparr>))) =
     [(1, message)]"
proof -
  have h1: "map_of (pending both_linked) 1 = Some message" and h2: "\<not> Delivered message"
    by (simp_all add: both_linked_def message_def)
  have d: "deliverVoicemail (From message) (To message) (AudioURL message) True both_linked =
     (Returns None,
      both_linked\<lparr>trace := trace both_linked @
        [Lookup ''+15551230000'', Lookup ''+15559998888'',
         Post 11 0 [(''participant'', [''22'']),
                    (''audio_url'', [''https://api.twilio.com/rec123.mp3''])]]\<rparr>)"
    using deliver_linked [of both_linked message] by (simp add: message_def)
  have ok: "put_fault both_linked tr = None" for tr
    by (simp add: both_linked_def)
  have first: "deliverPendingVoicemail 1 message both_linked =
     (Returns None,
      both_linked\<lparr>trace :=
          [Lookup ''+15551230000'', Lookup ''+15559998888'',
           Post 11 0 [(''participant'', [''22'']),
                      (''audio_url'', [''https://api.twilio.com/rec123.mp3''])],
           Write (Some 1) (message\<lparr>Delivered := True\<rparr>)],
        pending := [(1, message\<lparr>Delivered := True\<rparr>)]\<rparr>)"
    by (simp add: deliverPending_eq d ok Let_def) (simp add: both_linked_def)
  from marked_iff_delivered_and_written [OF h1 h2 refl refl]
  have marked: "fst (deliverPendingVoicemail 1 message both_linked) = Returns None \<and>
      map_of (pending (snd (deliverPendingVoicemail 1 message both_linked))) 1 =
        Some (message\<lparr>Delivered := True\<rparr>)"
    by (simp add: d ok update_conv')
  let ?w = "nobody\<lparr>pending := [(1, message)]\<rparr>"
  have g1: "map_of (pending ?w) 1 = Some message" by simp
  have n: "To message \<noteq> []" by (simp add: message_def)
  have a: "absent_or_available (identity_at ?w (To message))"
    by (simp add: absent_or_available_def identity_at_def nobody_def)
  have e: "fst (deliverVoicemail (From message) (To message) (AudioURL message) True ?w) \<noteq>
      Returns None"
    by (simp add: deliver_no_account [OF n a] Let_def)
  from marked_iff_delivered_and_written [OF g1 h2 refl refl] e
  have second: "fst (deliverPendingVoicemail 1 message ?w) \<noteq> Returns None \<and>
      pending (snd (deliverPendingVoicemail 1 message ?w)) = [(1, message)]"
    by simp
  have "map_of (pending nobody) 1 = None" by (simp add: nobody_def)
  with h1 h2 first marked g1 second show ?thesis by simp
qed

theorem marked_counterexample:
  "map_of (pending both_linked_no_writes) 1 = Some message \<and> \<not> Delivered message \<and>
   deliverVoicemail (From message) (To message) (AudioURL message) True both_linked_no_writes =
     (Returns None,
      both_linked_no_writes\<lparr>trace :=
        [Lookup ''+15551230000'', Lookup ''+15559998888'',
         Post 11 0 [(''participant'', [''22'']),
                    (''audio_url'', [''https://api.twilio.com/rec123.mp3''])]]\<rparr>) \<and>
   deliverPendingVoicemail 1 message both_linked_no_writes =
     (Returns (Some (PutError ErrUnavailable)),
      both_linked_no_writes\<lparr>trace :=
        [Lookup ''+15551230000'', Lookup ''+15559998888'',
         Post 11 0 [(''participant'', [''22'']),
                    (''audio_url'', [''https://api.twilio.com/rec123.mp3''])],
         Write (Some 1) (message\<lparr>Delivered := True\<rparr>)]\<rparr>) \<and>
   pending both_linked_no_writes = [(1, message)]"
proof -
  have tr: "trace both_linked_no_writes = []"
    and pe: "pending both_linked_no_writes = [(1, message)]"
    by (simp_all add: both_linked_no_writes_def both_linked_def)
  have d: "deliverVoicemail (From message) (To message) (AudioURL message) True
      both_linked_no_writes =
     (Returns None,
      both_linked_no_writes\<lparr>trace := trace both_linked_no_writes @
        [Lookup ''+15551230000'', Lookup ''+15559998888'',
         Post 11 0 [(''participant'', [''22'']),
                    (''audio_url'', [''https://api.twilio.com/rec123.mp3''])]]\<rparr>)"
    using deliver_linked [of both_linked_no_writes message]
    by (simp add: message_def both_linked_no_writes_def)
  have fault: "put_fault both_linked_no_writes t = Some ErrUnavailable" for t
    by (simp add: both_linked_no_writes_def)
  have p: "deliverPendingVoicemail 1 message both_linked_no_writes =
     (Returns (Some (PutError ErrUnavailable)),
      both_linked_no_writes\<lparr>trace :=
        [Lookup ''+15551230000'', Lookup ''+15559998888'',
         Post 11 0 [(''participant'', [''22'']),
                    (''audio_url'', [''https://api.twilio.com/rec123.mp3''])],
         Write (Some 1) (message\<lparr>Delivered := True\<rparr>)]\<rparr>)"
    by (simp add: deliverPending_eq d fault Let_def tr)
  have "\<not> Delivered message" by (simp add: message_def)
  with d p pe tr show ?thesis by simp
qed


end
